theory Spec2Isabelle
  imports Main
begin

section \<open>Python values\<close>

text \<open>
  The module under verification is
  \<^verbatim>\<open>python/packages/ag-ui/agent_framework_ag_ui_examples/agents/weather_agent.py\<close>.

  A Python \<^verbatim>\<open>str\<close> is a sequence of Unicode code points, so it is modelled as a list of
  code points, each a natural number; \<open>lit\<close> turns a literal of the source into that list.
  The degree sign of the forecast lines is the single code point 176, a line feed is 10.
\<close>

type_synonym pystr = "nat list"

definition lit :: "string \<Rightarrow> pystr" where
  "lit s = map of_char s"

text \<open>
  The weather dictionaries are \<^verbatim>\<open>dict[str, Any]\<close>; the values stored in them are integers
  and strings. A dictionary is an association list in insertion order, which is the order
  Python keeps.
\<close>

datatype pyval = VInt int | VStr pystr

type_synonym weather_record = "(pystr \<times> pyval) list"

text \<open>
  The two module-level objects made by the \<^verbatim>\<open>@ai_function\<close> decorator. The agent's tool list
  holds references to them.
\<close>

datatype tool = get_weather_tool | get_forecast_tool

section \<open>The logger\<close>

text \<open>
  Every function of the module calls the module-level \<^verbatim>\<open>logger\<close>. A call is recorded with its
  level and its f-string, kept as the pieces the source writes: literal text, and the
  objects put between braces. \<open>OType x\<close> is \<^verbatim>\<open>type(x)\<close>. The text Python makes of an
  object is not part of a record; the one conversion that can fail, that of the integer
  \<open>days\<close> in \<open>get_forecast\<close>, is made before the logger is called and is modelled there.

  The state of the process is a record whose one named field is the sequence of logger
  calls made so far; everything else the process holds is the record's extension, which
  no function of the module reads or writes.
\<close>

datatype level = DEBUG | INFO

datatype 'c pyobj =
    OStr pystr
  | OInt int
  | OList "'c pyobj list"
  | ODict weather_record
  | OTool tool
  | OClient 'c
  | OType "'c pyobj"

datatype 'c piece = Lit pystr | Fmt "'c pyobj"

record 'c world =
  emitted :: "(level \<times> 'c piece list) list"

definition logger_info :: "'c piece list \<Rightarrow> ('c, 'z) world_scheme \<Rightarrow> ('c, 'z) world_scheme" where
  "logger_info msg w = w\<lparr>emitted := emitted w @ [(INFO, msg)]\<rparr>"

definition logger_debug :: "'c piece list \<Rightarrow> ('c, 'z) world_scheme \<Rightarrow> ('c, 'z) world_scheme" where
  "logger_debug msg w = w\<lparr>emitted := emitted w @ [(DEBUG, msg)]\<rparr>"

section \<open>Weather lookup\<close>

text \<open>
  The literal table of \<^verbatim>\<open>get_weather\<close>. The source builds it as a local variable on every
  call, so no call can see a table that an earlier call or a caller has changed.
\<close>

definition weather_data :: "(pystr \<times> weather_record) list" where
  "weather_data =
    [(lit ''seattle'',
        [(lit ''temperature'', VInt 11), (lit ''conditions'', VStr (lit ''rainy'')),
         (lit ''humidity'', VInt 75), (lit ''wind_speed'', VInt 12), (lit ''feels_like'', VInt 10)]),
     (lit ''san francisco'',
        [(lit ''temperature'', VInt 14), (lit ''conditions'', VStr (lit ''foggy'')),
         (lit ''humidity'', VInt 85), (lit ''wind_speed'', VInt 8), (lit ''feels_like'', VInt 13)]),
     (lit ''new york city'',
        [(lit ''temperature'', VInt 18), (lit ''conditions'', VStr (lit ''sunny'')),
         (lit ''humidity'', VInt 60), (lit ''wind_speed'', VInt 10), (lit ''feels_like'', VInt 17)]),
     (lit ''miami'',
        [(lit ''temperature'', VInt 29), (lit ''conditions'', VStr (lit ''hot and humid'')),
         (lit ''humidity'', VInt 90), (lit ''wind_speed'', VInt 5), (lit ''feels_like'', VInt 32)]),
     (lit ''chicago'',
        [(lit ''temperature'', VInt 9), (lit ''conditions'', VStr (lit ''windy'')),
         (lit ''humidity'', VInt 65), (lit ''wind_speed'', VInt 20), (lit ''feels_like'', VInt 6)])]"

text \<open>
  \<^verbatim>\<open>str.lower\<close> is Python's built-in and no code of the repository: \<open>get_weather\<close> takes it as
  the parameter \<open>str_lower\<close>, so what is proved of \<open>get_weather\<close> holds whatever the built-in
  does on any code point. The membership test \<^verbatim>\<open>location_lower in weather_data\<close> and the
  subscript \<^verbatim>\<open>weather_data[location_lower]\<close> behind it are the two cases of \<open>map_of\<close>.
\<close>

definition get_weather ::
    "(pystr \<Rightarrow> pystr) \<Rightarrow> pystr \<Rightarrow> ('c, 'z) world_scheme \<Rightarrow> weather_record \<times> ('c, 'z) world_scheme" where
  "get_weather str_lower location w0 =
    (let w1 = logger_info [Lit (lit ''[get_weather] Called with location: ''), Fmt (OStr location)] w0;
         w2 = logger_debug [Lit (lit ''[get_weather] Location type: ''), Fmt (OType (OStr location))] w1;
         location_lower = str_lower location;
         w3 = logger_debug [Lit (lit ''[get_weather] Normalized location: ''), Fmt (OStr location_lower)] w2;
         w4 = logger_debug [Lit (lit ''[get_weather] Available locations: ''),
                            Fmt (OList (map OStr (map fst weather_data)))] w3
     in case map_of weather_data location_lower of
          Some result \<Rightarrow>
            (result,
             logger_info [Lit (lit ''[get_weather] Found weather data for ''), Fmt (OStr location_lower),
                          Lit (lit '': ''), Fmt (ODict result)] w4)
        | None \<Rightarrow>
            (let result =
                   [(lit ''temperature'', VInt 21), (lit ''conditions'', VStr (lit ''partly cloudy'')),
                    (lit ''humidity'', VInt 50), (lit ''wind_speed'', VInt 10),
                    (lit ''feels_like'', VInt 20)]
             in (result,
                 logger_info [Lit (lit ''[get_weather] Using default weather data for ''),
                              Fmt (OStr location_lower), Lit (lit '': ''), Fmt (ODict result)] w4)))"

text \<open>
  What \<^verbatim>\<open>str.lower\<close> does on a string of ASCII code points: the letters A to Z move to a to z
  and every other code point stays. \<open>lowers_ascii\<close> says that a function agrees with that
  on ASCII strings, as the built-in does.
\<close>

definition lower_ascii :: "nat \<Rightarrow> nat" where
  "lower_ascii c = (if 65 \<le> c \<and> c \<le> 90 then c + 32 else c)"

definition upper_ascii :: "nat \<Rightarrow> nat" where
  "upper_ascii c = (if 97 \<le> c \<and> c \<le> 122 then c - 32 else c)"

definition lowers_ascii :: "(pystr \<Rightarrow> pystr) \<Rightarrow> bool" where
  "lowers_ascii f \<longleftrightarrow> (\<forall>s. list_all (\<lambda>c. c < 128) s \<longrightarrow> f s = map lower_ascii s)"

text \<open>
  A casing of a name, in the spec's sense ("SEATTLE", "Seattle" for "seattle"): the same
  string with any of its letters put in upper case.
\<close>

definition casing_of :: "pystr \<Rightarrow> pystr \<Rightarrow> bool" where
  "casing_of k s \<longleftrightarrow> list_all2 (\<lambda>a b. b = a \<or> b = upper_ascii a) k s"

text \<open>The default record, as the spec writes it.\<close>

definition default_record :: weather_record where
  "default_record =
    [(lit ''temperature'', VInt 21), (lit ''conditions'', VStr (lit ''partly cloudy'')),
     (lit ''humidity'', VInt 50), (lit ''wind_speed'', VInt 10), (lit ''feels_like'', VInt 20)]"

text \<open>
  The shape the spec gives a WeatherRecord: the five attributes \<^verbatim>\<open>temperature\<close>,
  \<^verbatim>\<open>conditions\<close>, \<^verbatim>\<open>humidity\<close>, \<^verbatim>\<open>wind_speed\<close>, \<^verbatim>\<open>feels_like\<close> and no other, the second a
  string and the others integers.
\<close>

datatype pytype = TInt | TStr

fun type_of :: "pyval \<Rightarrow> pytype" where
  "type_of (VInt i) = TInt"
| "type_of (VStr s) = TStr"

definition is_weather_record :: "weather_record \<Rightarrow> bool" where
  "is_weather_record r \<longleftrightarrow>
     map (\<lambda>(k, v). (k, type_of v)) r =
       [(lit ''temperature'', TInt), (lit ''conditions'', TStr), (lit ''humidity'', TInt),
        (lit ''wind_speed'', TInt), (lit ''feels_like'', TInt)]"

section \<open>Forecast generation\<close>

text \<open>
  An f-string renders an integer in decimal, with a minus sign when it is negative:
  \<open>decimal\<close>. Python's integers are unbounded, and so are these.

  The interpreter limits the conversion: with the setting \<^verbatim>\<open>sys.int_max_str_digits\<close> (0 for no
  limit, else at least 640; 4300 when nothing sets it, and absent, that is 0, before the
  interpreters that introduced it), converting an integer of more decimal digits than the
  setting raises \<^verbatim>\<open>ValueError\<close>. The sign is not counted, and an integer of 640 digits or
  fewer is never refused. The setting is the parameter \<open>int_max_str_digits\<close> of the model,
  and \<open>str_int\<close> is the conversion as an f-string performs it.
\<close>

datatype error = ValueError

fun digits :: "nat \<Rightarrow> pystr" where
  "digits n = (if n < 10 then [48 + n] else digits (n div 10) @ [48 + n mod 10])"

definition decimal :: "int \<Rightarrow> pystr" where
  "decimal i = (if i < 0 then 45 # digits (nat (- i)) else digits (nat i))"

definition exceeds_limit :: "nat \<Rightarrow> int \<Rightarrow> bool" where
  "exceeds_limit int_max_str_digits i \<longleftrightarrow>
     0 < int_max_str_digits \<and> max 640 int_max_str_digits < length (digits (nat \<bar>i\<bar>))"

definition str_int :: "nat \<Rightarrow> int \<Rightarrow> error + pystr" where
  "str_int int_max_str_digits i =
     (if exceeds_limit int_max_str_digits i then Inl ValueError else Inr (decimal i))"

text \<open>
  The loop \<^verbatim>\<open>for day in range(1, min(days, 7) + 1): forecast.append(...)\<close>, with \<open>day\<close> the next
  value of the range, \<open>stop\<close> its end and \<open>forecast\<close> the list built so far. The f-string of
  the body converts \<open>day\<close> and \<open>60 + day * 2\<close>; an error of a conversion ends the loop.
\<close>

function forecast_loop :: "nat \<Rightarrow> int \<Rightarrow> int \<Rightarrow> pystr list \<Rightarrow> error + pystr list" where
  "forecast_loop int_max_str_digits day stop forecast =
     (if day < stop
      then (case str_int int_max_str_digits day of
              Inl err \<Rightarrow> Inl err
            | Inr day_text \<Rightarrow>
                (case str_int int_max_str_digits (60 + day * 2) of
                   Inl err \<Rightarrow> Inl err
                 | Inr temperature_text \<Rightarrow>
                     forecast_loop int_max_str_digits (day + 1) stop
                       (forecast @
                         [lit ''Day '' @ day_text @ lit '': Partly cloudy, '' @ temperature_text @
                          [176] @ lit ''F''])))
      else Inr forecast)"
  by pat_completeness auto
termination
  by (relation "measure (\<lambda>(int_max_str_digits, day, stop, forecast). nat (stop - day))") auto

text \<open>\<^verbatim>\<open>sep.join(parts)\<close>.\<close>

fun str_join :: "pystr \<Rightarrow> pystr list \<Rightarrow> pystr" where
  "str_join sep [] = []"
| "str_join sep [x] = x"
| "str_join sep (x # y # ys) = x @ sep @ str_join sep (y # ys)"

text \<open>
  \<^verbatim>\<open>days\<close> has the default 3 in the source; a call that leaves it out is
  \<open>get_forecast int_max_str_digits location 3\<close>.

  An f-string is built before the logger is called with it. The first statement of the
  function converts \<open>days\<close> for its message, so a \<open>days\<close> beyond the limit raises there: the
  function ends with the error and no logger call has been made. The logger's record
  keeps \<open>days\<close> as the object; the text returned holds its conversion.
\<close>

definition get_forecast ::
    "nat \<Rightarrow> pystr \<Rightarrow> int \<Rightarrow> ('c, 'z) world_scheme \<Rightarrow> (error + pystr) \<times> ('c, 'z) world_scheme" where
  "get_forecast int_max_str_digits location days w0 =
    (case str_int int_max_str_digits days of
       Inl err \<Rightarrow> (Inl err, w0)
     | Inr days_logged \<Rightarrow>
        (let w1 = logger_info [Lit (lit ''[get_forecast] Called with location: ''), Fmt (OStr location),
                               Lit (lit '', days: ''), Fmt (OInt days)] w0;
             w2 = logger_debug [Lit (lit ''[get_forecast] Location type: ''), Fmt (OType (OStr location)),
                                Lit (lit '', days type: ''), Fmt (OType (OInt days))] w1
         in case forecast_loop int_max_str_digits 1 (min days 7 + 1) [] of
              Inl err \<Rightarrow> (Inl err, w2)
            | Inr forecast \<Rightarrow>
               (case str_int int_max_str_digits days of
                  Inl err \<Rightarrow> (Inl err, w2)
                | Inr days_text \<Rightarrow>
                   (let result = days_text @ lit ''-day forecast for '' @ location @ lit '':\<newline>'' @
                                 str_join (lit ''\<newline>'') forecast;
                        w3 = logger_info [Lit (lit ''[get_forecast] Generated forecast: ''),
                                          Fmt (OStr result)] w2
                    in (Inr result, w3)))))"

text \<open>
  The header and the forecast line of day \<open>n\<close>, as the spec writes them, and the lines of a
  text: the pieces between its line feeds (\<^verbatim>\<open>text.split("\n")\<close>).
\<close>

definition header :: "int \<Rightarrow> pystr \<Rightarrow> pystr" where
  "header days location = decimal days @ lit ''-day forecast for '' @ location @ lit '':''"

definition day_line :: "int \<Rightarrow> pystr" where
  "day_line n = lit ''Day '' @ decimal n @ lit '': Partly cloudy, '' @ decimal (60 + 2 * n) @ [176, 70]"


section \<open>Agent assembly\<close>

text \<open>
  The keyword arguments of the call \<^verbatim>\<open>ChatAgent(name=..., instructions=..., chat_client=...,
  tools=[...])\<close>.
\<close>

record 'c agent_args =
  arg_name :: pystr
  arg_instructions :: pystr
  arg_chat_client :: 'c
  arg_tools :: "tool list"

text \<open>
  \<^verbatim>\<open>ChatAgent\<close> belongs to the framework and is not among the sources, so \<open>weather_agent\<close>
  takes the constructor as a parameter: a function of the keyword arguments and the state
  that raises an error (\<open>Inl\<close>) or returns an agent (\<open>Inr\<close>), with the state it leaves. An
  exception raised by the constructor leaves \<open>weather_agent\<close> at once, before the last
  logger call.
\<close>

definition weather_agent ::
    "('c agent_args \<Rightarrow> ('c, 'z) world_scheme \<Rightarrow> ('e + 'a) \<times> ('c, 'z) world_scheme) \<Rightarrow>
     'c \<Rightarrow> ('c, 'z) world_scheme \<Rightarrow> ('e + 'a) \<times> ('c, 'z) world_scheme" where
  "weather_agent ChatAgent chat_client w0 =
    (let w1 = logger_info [Lit (lit ''[weather_agent] Creating weather agent'')] w0;
         w2 = logger_debug [Lit (lit ''[weather_agent] Chat client type: ''),
                            Fmt (OType (OClient chat_client))] w1;
         w3 = logger_debug [Lit (lit ''[weather_agent] Available tools: ''),
                            Fmt (OList [OTool get_weather_tool, OTool get_forecast_tool])] w2
     in case ChatAgent
               \<lparr>arg_name = lit ''weather_agent'',
                arg_instructions =
                  lit ''You are a helpful weather assistant. '' @
                  lit ''Use the get_weather and get_forecast functions to help users with weather information. '' @
                  lit ''Always provide friendly and informative responses.'',
                arg_chat_client = chat_client,
                arg_tools = [get_weather_tool, get_forecast_tool]\<rparr> w3 of
          (Inl err, w4) \<Rightarrow> (Inl err, w4)
        | (Inr agent, w4) \<Rightarrow>
            (Inr agent, logger_info [Lit (lit ''[weather_agent] Weather agent created successfully'')] w4))"

text \<open>
  The state in which \<open>weather_agent\<close> calls the constructor: the caller's, after the three
  logger calls that come first.
\<close>

definition before_constructor :: "'c \<Rightarrow> ('c, 'z) world_scheme \<Rightarrow> ('c, 'z) world_scheme" where
  "before_constructor chat_client w0 =
     logger_debug [Lit (lit ''[weather_agent] Available tools: ''),
                   Fmt (OList [OTool get_weather_tool, OTool get_forecast_tool])]
       (logger_debug [Lit (lit ''[weather_agent] Chat client type: ''), Fmt (OType (OClient chat_client))]
         (logger_info [Lit (lit ''[weather_agent] Creating weather agent'')] w0))"

text \<open>
  Modelled from the spec: the constructor \<^verbatim>\<open>ChatAgent\<close> of the package \<^verbatim>\<open>agent_framework\<close>,
  which is not among the sources. The spec calls its result an agent handle that holds the
  configuration it was given: a recorded name, the instructions, the client reference and
  the registered tools. The model returns the keyword arguments as that handle and raises
  nothing.
\<close>

definition ChatAgent_recording ::
    "'c agent_args \<Rightarrow> ('c, 'z) world_scheme \<Rightarrow> (unit + 'c agent_args) \<times> ('c, 'z) world_scheme" where
  "ChatAgent_recording args w = (Inr args, w)"

section \<open>Facts about the weather lookup\<close>

declare forecast_loop.simps [simp del]
declare digits.simps [simp del]

text \<open>The value \<open>get_weather\<close> returns is the table's entry for the lowered name, or the default.\<close>

lemma get_weather_result:
  "fst (get_weather str_lower s w) =
     (case map_of weather_data (str_lower s) of Some r \<Rightarrow> r | None \<Rightarrow> default_record)"
  by (simp add: get_weather_def default_record_def Let_def split: option.split)

lemma weather_keys:
  "map fst weather_data =
     [lit ''seattle'', lit ''san francisco'', lit ''new york city'', lit ''miami'', lit ''chicago'']"
  by (simp add: weather_data_def)

lemma lookup_seattle:
  "map_of weather_data (lit ''seattle'') =
     Some [(lit ''temperature'', VInt 11), (lit ''conditions'', VStr (lit ''rainy'')),
           (lit ''humidity'', VInt 75), (lit ''wind_speed'', VInt 12), (lit ''feels_like'', VInt 10)]"
  by (simp add: weather_data_def lit_def)

lemma lookup_san_francisco:
  "map_of weather_data (lit ''san francisco'') =
     Some [(lit ''temperature'', VInt 14), (lit ''conditions'', VStr (lit ''foggy'')),
           (lit ''humidity'', VInt 85), (lit ''wind_speed'', VInt 8), (lit ''feels_like'', VInt 13)]"
  by (simp add: weather_data_def lit_def)

lemma lookup_new_york_city:
  "map_of weather_data (lit ''new york city'') =
     Some [(lit ''temperature'', VInt 18), (lit ''conditions'', VStr (lit ''sunny'')),
           (lit ''humidity'', VInt 60), (lit ''wind_speed'', VInt 10), (lit ''feels_like'', VInt 17)]"
  by (simp add: weather_data_def lit_def)

lemma lookup_miami:
  "map_of weather_data (lit ''miami'') =
     Some [(lit ''temperature'', VInt 29), (lit ''conditions'', VStr (lit ''hot and humid'')),
           (lit ''humidity'', VInt 90), (lit ''wind_speed'', VInt 5), (lit ''feels_like'', VInt 32)]"
  by (simp add: weather_data_def lit_def)

lemma lookup_chicago:
  "map_of weather_data (lit ''chicago'') =
     Some [(lit ''temperature'', VInt 9), (lit ''conditions'', VStr (lit ''windy'')),
           (lit ''humidity'', VInt 65), (lit ''wind_speed'', VInt 20), (lit ''feels_like'', VInt 6)]"
  by (simp add: weather_data_def lit_def)

lemma lookup_unknown:
  "k \<notin> set (map fst weather_data) \<Longrightarrow> map_of weather_data k = None"
  by (simp add: map_of_eq_None_iff)

text \<open>Every value \<open>get_weather\<close> returns is a record of the table or the default record.\<close>

lemma get_weather_range:
  "fst (get_weather str_lower s w) \<in> set (map snd weather_data) \<union> {default_record}"
proof (cases "map_of weather_data (str_lower s)")
  case None
  then show ?thesis by (simp add: get_weather_result)
next
  case (Some r)
  then have "(str_lower s, r) \<in> set weather_data" by (rule map_of_SomeD)
  then have "r \<in> set (map snd weather_data)" by force
  with Some show ?thesis by (simp add: get_weather_result)
qed

text \<open>
  A casing of a name made of small letters and spaces is a string of ASCII code points, and
  lowering it gives the name back.
\<close>

lemma casing_lower_step:
  assumes "97 \<le> a \<and> a \<le> 122 \<or> a = 32" and "b = a \<or> b = upper_ascii a"
  shows "b < 128 \<and> lower_ascii b = a"
  using assms by (auto simp: lower_ascii_def upper_ascii_def)

lemma casing_lowered:
  assumes "casing_of k s" and "list_all (\<lambda>a. 97 \<le> a \<and> a \<le> 122 \<or> a = 32) k"
  shows "list_all (\<lambda>c. c < 128) s \<and> map lower_ascii s = k"
  using assms unfolding casing_of_def
proof (induction k s rule: list_all2_induct)
  case Nil
  then show ?case by simp
next
  case (Cons a k b s)
  from Cons.prems have a: "97 \<le> a \<and> a \<le> 122 \<or> a = 32"
    and k: "list_all (\<lambda>a. 97 \<le> a \<and> a \<le> 122 \<or> a = 32) k"
    by simp_all
  from casing_lower_step [OF a Cons.hyps(1)] Cons.IH [OF k] show ?case by simp
qed

lemma casing_lower:
  assumes "lowers_ascii str_lower" and "casing_of k s"
    and "list_all (\<lambda>a. 97 \<le> a \<and> a \<le> 122 \<or> a = 32) k"
  shows "str_lower s = k"
  using casing_lowered [OF assms(2,3)] assms(1) by (simp add: lowers_ascii_def)

lemma key_letters:
  "list_all (\<lambda>a. 97 \<le> a \<and> a \<le> 122 \<or> a = 32) (lit ''seattle'')"
  "list_all (\<lambda>a. 97 \<le> a \<and> a \<le> 122 \<or> a = 32) (lit ''san francisco'')"
  "list_all (\<lambda>a. 97 \<le> a \<and> a \<le> 122 \<or> a = 32) (lit ''new york city'')"
  "list_all (\<lambda>a. 97 \<le> a \<and> a \<le> 122 \<or> a = 32) (lit ''miami'')"
  "list_all (\<lambda>a. 97 \<le> a \<and> a \<le> 122 \<or> a = 32) (lit ''chicago'')"
  by (simp_all add: lit_def)

lemma lowers_ascii_map: "lowers_ascii (map lower_ascii)"
  by (simp add: lowers_ascii_def)

text \<open>
  Claim C1. For each of the five known locations and every casing of its name,
  \<open>get_weather\<close> returns exactly the record the table holds for that location. The
  built-in \<^verbatim>\<open>str.lower\<close> enters only through what it does on ASCII strings.
\<close>

theorem get_weather_known_locations:
  assumes "lowers_ascii str_lower"
  shows
    "(casing_of (lit ''seattle'') s \<longrightarrow>
        fst (get_weather str_lower s w) =
          [(lit ''temperature'', VInt 11), (lit ''conditions'', VStr (lit ''rainy'')),
           (lit ''humidity'', VInt 75), (lit ''wind_speed'', VInt 12), (lit ''feels_like'', VInt 10)]) \<and>
     (casing_of (lit ''san francisco'') s \<longrightarrow>
        fst (get_weather str_lower s w) =
          [(lit ''temperature'', VInt 14), (lit ''conditions'', VStr (lit ''foggy'')),
           (lit ''humidity'', VInt 85), (lit ''wind_speed'', VInt 8), (lit ''feels_like'', VInt 13)]) \<and>
     (casing_of (lit ''new york city'') s \<longrightarrow>
        fst (get_weather str_lower s w) =
          [(lit ''temperature'', VInt 18), (lit ''conditions'', VStr (lit ''sunny'')),
           (lit ''humidity'', VInt 60), (lit ''wind_speed'', VInt 10), (lit ''feels_like'', VInt 17)]) \<and>
     (casing_of (lit ''miami'') s \<longrightarrow>
        fst (get_weather str_lower s w) =
          [(lit ''temperature'', VInt 29), (lit ''conditions'', VStr (lit ''hot and humid'')),
           (lit ''humidity'', VInt 90), (lit ''wind_speed'', VInt 5), (lit ''feels_like'', VInt 32)]) \<and>
     (casing_of (lit ''chicago'') s \<longrightarrow>
        fst (get_weather str_lower s w) =
          [(lit ''temperature'', VInt 9), (lit ''conditions'', VStr (lit ''windy'')),
           (lit ''humidity'', VInt 65), (lit ''wind_speed'', VInt 20), (lit ''feels_like'', VInt 6)])"
proof -
  have low: "str_lower s = k"
    if "casing_of k s" and "list_all (\<lambda>a. 97 \<le> a \<and> a \<le> 122 \<or> a = 32) k" for k
    using casing_lower [OF assms that] .
  show ?thesis
    by (auto simp: get_weather_result low key_letters lookup_seattle lookup_san_francisco
        lookup_new_york_city lookup_miami lookup_chicago)
qed

theorem get_weather_known_locations_witness:
  "lowers_ascii (map lower_ascii) \<and>
   casing_of (lit ''seattle'') (lit ''SEATTLE'') \<and>
   fst (get_weather (map lower_ascii) (lit ''SEATTLE'') (\<lparr>emitted = []\<rparr> :: unit world)) =
     [(lit ''temperature'', VInt 11), (lit ''conditions'', VStr (lit ''rainy'')),
      (lit ''humidity'', VInt 75), (lit ''wind_speed'', VInt 12), (lit ''feels_like'', VInt 10)] \<and>
   casing_of (lit ''new york city'') (lit ''New York City'') \<and>
   fst (get_weather (map lower_ascii) (lit ''New York City'') (\<lparr>emitted = []\<rparr> :: unit world)) =
     [(lit ''temperature'', VInt 18), (lit ''conditions'', VStr (lit ''sunny'')),
      (lit ''humidity'', VInt 60), (lit ''wind_speed'', VInt 10), (lit ''feels_like'', VInt 17)]"
proof -
  have c1: "casing_of (lit ''seattle'') (lit ''SEATTLE'')"
    by (simp add: casing_of_def lit_def upper_ascii_def)
  have c2: "casing_of (lit ''new york city'') (lit ''New York City'')"
    by (simp add: casing_of_def lit_def upper_ascii_def)
  show ?thesis
    using lowers_ascii_map c1 c2
      get_weather_known_locations [OF lowers_ascii_map, of "lit ''SEATTLE''"
        "\<lparr>emitted = []\<rparr> :: unit world"]
      get_weather_known_locations [OF lowers_ascii_map, of "lit ''New York City''"
        "\<lparr>emitted = []\<rparr> :: unit world"]
    by simp
qed

text \<open>
  Claim C2. For every input whose lowered form is none of the five keys (among them
  "Tokyo" and the empty string), \<open>get_weather\<close> returns exactly the default record; and
  for every input at all it returns a record of the table or the default one, so the
  lookup has no failing case.
\<close>

theorem get_weather_default:
  "(str_lower s \<notin> {lit ''seattle'', lit ''san francisco'', lit ''new york city'', lit ''miami'',
                    lit ''chicago''} \<longrightarrow>
      fst (get_weather str_lower s w) =
        [(lit ''temperature'', VInt 21), (lit ''conditions'', VStr (lit ''partly cloudy'')),
         (lit ''humidity'', VInt 50), (lit ''wind_speed'', VInt 10), (lit ''feels_like'', VInt 20)]) \<and>
   (lowers_ascii str_lower \<longrightarrow>
      fst (get_weather str_lower (lit ''Tokyo'') w) =
        [(lit ''temperature'', VInt 21), (lit ''conditions'', VStr (lit ''partly cloudy'')),
         (lit ''humidity'', VInt 50), (lit ''wind_speed'', VInt 10), (lit ''feels_like'', VInt 20)] \<and>
      fst (get_weather str_lower (lit '''') w) =
        [(lit ''temperature'', VInt 21), (lit ''conditions'', VStr (lit ''partly cloudy'')),
         (lit ''humidity'', VInt 50), (lit ''wind_speed'', VInt 10), (lit ''feels_like'', VInt 20)]) \<and>
   fst (get_weather str_lower s w) \<in> set (map snd weather_data) \<union> {default_record}"
proof (intro conjI impI)
  assume "str_lower s \<notin> {lit ''seattle'', lit ''san francisco'', lit ''new york city'', lit ''miami'',
                          lit ''chicago''}"
  then have "map_of weather_data (str_lower s) = None"
    by (intro lookup_unknown) (simp add: weather_keys)
  then show "fst (get_weather str_lower s w) =
        [(lit ''temperature'', VInt 21), (lit ''conditions'', VStr (lit ''partly cloudy'')),
         (lit ''humidity'', VInt 50), (lit ''wind_speed'', VInt 10), (lit ''feels_like'', VInt 20)]"
    by (simp add: get_weather_result default_record_def)
next
  assume l: "lowers_ascii str_lower"
  have "str_lower (lit ''Tokyo'') = lit ''tokyo''"
    using l by (simp add: lowers_ascii_def lit_def lower_ascii_def)
  moreover have "map_of weather_data (lit ''tokyo'') = None"
    by (simp add: weather_data_def lit_def)
  ultimately show "fst (get_weather str_lower (lit ''Tokyo'') w) =
        [(lit ''temperature'', VInt 21), (lit ''conditions'', VStr (lit ''partly cloudy'')),
         (lit ''humidity'', VInt 50), (lit ''wind_speed'', VInt 10), (lit ''feels_like'', VInt 20)]"
    by (simp add: get_weather_result default_record_def)
  have "str_lower (lit '''') = lit ''''"
    using l by (simp add: lowers_ascii_def lit_def)
  moreover have "map_of weather_data (lit '''') = None"
    by (simp add: weather_data_def lit_def)
  ultimately show "fst (get_weather str_lower (lit '''') w) =
        [(lit ''temperature'', VInt 21), (lit ''conditions'', VStr (lit ''partly cloudy'')),
         (lit ''humidity'', VInt 50), (lit ''wind_speed'', VInt 10), (lit ''feels_like'', VInt 20)]"
    by (simp add: get_weather_result default_record_def)
next
  show "fst (get_weather str_lower s w) \<in> set (map snd weather_data) \<union> {default_record}"
    by (rule get_weather_range)
qed

theorem get_weather_default_witness:
  "map lower_ascii (lit ''Tokyo'') \<notin>
      {lit ''seattle'', lit ''san francisco'', lit ''new york city'', lit ''miami'', lit ''chicago''} \<and>
   lowers_ascii (map lower_ascii) \<and>
   fst (get_weather (map lower_ascii) (lit ''Tokyo'') (\<lparr>emitted = []\<rparr> :: unit world)) =
        [(lit ''temperature'', VInt 21), (lit ''conditions'', VStr (lit ''partly cloudy'')),
         (lit ''humidity'', VInt 50), (lit ''wind_speed'', VInt 10), (lit ''feels_like'', VInt 20)] \<and>
   fst (get_weather (map lower_ascii) (lit '''') (\<lparr>emitted = []\<rparr> :: unit world)) =
        [(lit ''temperature'', VInt 21), (lit ''conditions'', VStr (lit ''partly cloudy'')),
         (lit ''humidity'', VInt 50), (lit ''wind_speed'', VInt 10), (lit ''feels_like'', VInt 20)]"
proof -
  have n: "map lower_ascii (lit ''Tokyo'') \<notin>
      {lit ''seattle'', lit ''san francisco'', lit ''new york city'', lit ''miami'', lit ''chicago''}"
    by (simp add: lit_def lower_ascii_def)
  show ?thesis
    using lowers_ascii_map n
      get_weather_default [of "map lower_ascii" "lit ''Tokyo''" "\<lparr>emitted = []\<rparr> :: unit world"]
    by simp
qed

section \<open>Facts about the forecast\<close>

text \<open>The number of digits of a number, against the powers of ten.\<close>

lemma digits_length_le: "0 < k \<Longrightarrow> n < 10 ^ k \<Longrightarrow> length (digits n) \<le> k"
proof (induction n arbitrary: k rule: digits.induct)
  case (1 n)
  show ?case
  proof (cases "n < 10")
    case True
    with "1.prems" show ?thesis by (subst digits.simps) simp
  next
    case False
    with "1.prems" have k: "1 < k"
      by (cases "k = 1") auto
    then obtain j where j: "k = Suc j" "0 < j"
      by (cases k) auto
    with "1.prems" have "n div 10 < 10 ^ j"
      by (simp add: less_mult_imp_div_less mult.commute)
    with "1.IH" [of j] False j have "length (digits (n div 10)) \<le> j" by simp
    with False j show ?thesis by (subst digits.simps) simp
  qed
qed

lemma digits_length_gt: "10 ^ k \<le> n \<Longrightarrow> k < length (digits n)"
proof (induction n arbitrary: k rule: digits.induct)
  case (1 n)
  show ?case
  proof (cases "n < 10")
    case True
    with "1.prems" have "(10::nat) ^ k < 10 ^ 1" by simp
    then have "k < 1"
      by (rule power_less_imp_less_exp [rotated]) simp
    then have "k = 0" by simp
    with True show ?thesis by (subst digits.simps) simp
  next
    case False
    show ?thesis
    proof (cases k)
      case 0
      with False show ?thesis by (subst digits.simps) simp
    next
      case (Suc j)
      with "1.prems" have "10 ^ j \<le> n div 10"
        by (simp add: less_eq_div_iff_mult_less_eq mult.commute)
      with "1.IH" [of j] False have "j < length (digits (n div 10))" by simp
      with False Suc show ?thesis by (subst digits.simps) simp
    qed
  qed
qed

text \<open>No setting refuses an integer of at most 640 digits; the loop converts such only.\<close>

lemma small_within_limit: "\<bar>i\<bar> < 100 \<Longrightarrow> \<not> exceeds_limit int_max_str_digits i"
proof -
  assume "\<bar>i\<bar> < 100"
  then have "nat \<bar>i\<bar> < 10 ^ 2" by simp
  then have "length (digits (nat \<bar>i\<bar>)) \<le> 2"
    by (intro digits_length_le) simp_all
  then show ?thesis by (simp add: exceeds_limit_def)
qed

lemma str_int_small: "\<bar>i\<bar> < 100 \<Longrightarrow> str_int int_max_str_digits i = Inr (decimal i)"
  by (simp add: str_int_def small_within_limit)

text \<open>A power of ten with more digits than the setting allows, and its negation, are refused.\<close>

lemma power_exceeds_limit:
  assumes "0 < int_max_str_digits" and "640 \<le> k" and "int_max_str_digits \<le> k"
  shows "exceeds_limit int_max_str_digits (10 ^ k)"
    and "exceeds_limit int_max_str_digits (- (10 ^ k))"
proof -
  have "nat \<bar>(10::int) ^ k\<bar> = 10 ^ k"
    by (simp add: nat_power_eq)
  moreover have "nat \<bar>- ((10::int) ^ k)\<bar> = 10 ^ k"
    by (simp add: nat_power_eq)
  moreover have "k < length (digits (10 ^ k))"
    by (rule digits_length_gt) simp
  ultimately show "exceeds_limit int_max_str_digits (10 ^ k)"
    and "exceeds_limit int_max_str_digits (- (10 ^ k))"
    using assms by (simp_all only: exceeds_limit_def max_less_iff_conj) auto
qed

text \<open>
  The loop appends the line of every day from \<open>day\<close> up to, and without, \<open>stop\<close>; between 0
  and 8 no conversion of it fails.
\<close>

lemma forecast_loop_eq:
  "0 \<le> day \<Longrightarrow> stop \<le> 8 \<Longrightarrow>
   forecast_loop int_max_str_digits day stop acc = Inr (acc @ map day_line [day..stop - 1])"
proof (induction int_max_str_digits day stop acc rule: forecast_loop.induct)
  case (1 int_max_str_digits day stop forecast)
  show ?case
  proof (cases "day < stop")
    case True
    with "1.prems" have d: "str_int int_max_str_digits day = Inr (decimal day)"
      and t: "str_int int_max_str_digits (60 + day * 2) = Inr (decimal (60 + day * 2))"
      by (simp_all add: str_int_small)
    from True have u: "[day..stop - 1] = day # [day + 1..stop - 1]"
      by (simp add: upto_rec1)
    from "1.IH" [OF True d t] "1.prems"
    have "forecast_loop int_max_str_digits (day + 1) stop
            (forecast @ [lit ''Day '' @ decimal day @ lit '': Partly cloudy, '' @
                         decimal (60 + day * 2) @ [176] @ lit ''F'']) =
          Inr ((forecast @ [lit ''Day '' @ decimal day @ lit '': Partly cloudy, '' @
                         decimal (60 + day * 2) @ [176] @ lit ''F'']) @
               map day_line [day + 1..stop - 1])"
      by simp
    with True d t u show ?thesis
      by (subst forecast_loop.simps) (simp add: day_line_def lit_def mult.commute)
  next
    case False
    then show ?thesis by (subst forecast_loop.simps) simp
  qed
qed

lemma forecast_loop_from_1:
  "forecast_loop int_max_str_digits 1 (min days 7 + 1) [] = Inr (map day_line [1..min days 7])"
  using forecast_loop_eq [of 1 "min days 7 + 1" int_max_str_digits "[]"] by simp


text \<open>What \<open>get_forecast\<close> does within the limit, and beyond it.\<close>

lemma get_forecast_result:
  "\<not> exceeds_limit int_max_str_digits days \<Longrightarrow>
   fst (get_forecast int_max_str_digits location days w) =
     Inr (header days location @ [10] @ str_join [10] (map day_line [1..min days 7]))"
  by (simp add: get_forecast_def Let_def str_int_def header_def forecast_loop_from_1 lit_def)

lemma get_forecast_raises:
  "exceeds_limit int_max_str_digits days \<Longrightarrow>
   get_forecast int_max_str_digits location days w = (Inl ValueError, w)"
  by (simp add: get_forecast_def str_int_def)









lemmas forecast_eval =
  get_forecast_def Let_def forecast_loop.simps str_int_def exceeds_limit_def decimal_def
  digits.simps lit_def




text \<open>
  Claim C4. \<open>get_forecast\<close> for "Paris" and 3 days returns exactly the header and the
  lines of days 1, 2 and 3, joined by line feeds, with nothing after the last line, under
  every setting of the limit.
\<close>

theorem get_forecast_paris_3:
  "fst (get_forecast int_max_str_digits (lit ''Paris'') 3 w) =
     Inr (lit ''3-day forecast for Paris:\<newline>Day 1: Partly cloudy, 62'' @ [176] @
          lit ''F\<newline>Day 2: Partly cloudy, 64'' @ [176] @
          lit ''F\<newline>Day 3: Partly cloudy, 66'' @ [176] @ lit ''F'')"
  by (simp add: forecast_eval)

text \<open>
  Claim C5, amended. For every location and every \<open>days\<close> of 0 or less that the
  interpreter's digit limit does not refuse, the loop makes no forecast line and the text
  returned is the header followed by one line feed and nothing else: for "Paris" and 0
  days it is \<^verbatim>\<open>0-day forecast for Paris:\<close> and a line feed. For every \<open>days\<close> at all the
  loop ends without an error and with at most seven lines, and \<open>get_forecast\<close> returns a
  text exactly when the limit does not refuse \<open>days\<close>; when it does, \<open>get_forecast\<close> raises
  \<^verbatim>\<open>ValueError\<close> and leaves the state as it was.
\<close>

theorem get_forecast_nonpositive:
  assumes "days \<le> 0" and "\<not> exceeds_limit int_max_str_digits days"
  shows
    "forecast_loop int_max_str_digits 1 (min days 7 + 1) [] = Inr [] \<and>
     fst (get_forecast int_max_str_digits location days w) =
       Inr (header days location @ lit ''\<newline>'') \<and>
     fst (get_forecast int_max_str_digits (lit ''Paris'') 0 w) =
       Inr (lit ''0-day forecast for Paris:\<newline>'') \<and>
     (\<forall>d. \<exists>forecast. forecast_loop int_max_str_digits 1 (min d 7 + 1) [] = Inr forecast \<and>
                      length forecast \<le> 7) \<and>
     (\<forall>d. (\<exists>text. fst (get_forecast int_max_str_digits location d w) = Inr text) \<longleftrightarrow>
          \<not> exceeds_limit int_max_str_digits d) \<and>
     (\<forall>d. exceeds_limit int_max_str_digits d \<longrightarrow>
          get_forecast int_max_str_digits location d w = (Inl ValueError, w))"
proof (intro conjI allI impI)
  from assms forecast_loop_eq [of 1 "min days 7 + 1" int_max_str_digits "[]"]
  show "forecast_loop int_max_str_digits 1 (min days 7 + 1) [] = Inr []"
    by simp
  from assms show "fst (get_forecast int_max_str_digits location days w) =
       Inr (header days location @ lit ''\<newline>'')"
    by (simp add: get_forecast_result lit_def)
  show "fst (get_forecast int_max_str_digits (lit ''Paris'') 0 w) =
       Inr (lit ''0-day forecast for Paris:\<newline>'')"
    by (simp add: forecast_eval)
  show "\<exists>forecast. forecast_loop int_max_str_digits 1 (min d 7 + 1) [] = Inr forecast \<and>
                   length forecast \<le> 7" for d
    by (simp add: forecast_loop_from_1)
  show "(\<exists>text. fst (get_forecast int_max_str_digits location d w) = Inr text) \<longleftrightarrow>
          \<not> exceeds_limit int_max_str_digits d" for d
    by (cases "exceeds_limit int_max_str_digits d")
      (simp_all add: get_forecast_result get_forecast_raises)
  show "get_forecast int_max_str_digits location d w = (Inl ValueError, w)"
    if "exceeds_limit int_max_str_digits d" for d
    using that by (rule get_forecast_raises)
qed

theorem get_forecast_nonpositive_witness:
  "(- 2 :: int) \<le> 0 \<and> \<not> exceeds_limit 4300 (- 2) \<and>
   forecast_loop 4300 1 (min (- 2) 7 + 1) [] = Inr [] \<and>
   fst (get_forecast 4300 (lit ''Paris'') (- 2) (\<lparr>emitted = []\<rparr> :: unit world)) =
     Inr (lit ''-2-day forecast for Paris:\<newline>'')"
proof -
  have h: "(- 2 :: int) \<le> 0" by simp
  have l: "\<not> exceeds_limit 4300 (- 2)" by (simp add: exceeds_limit_def digits.simps)
  show ?thesis
    using h l
      get_forecast_nonpositive [OF h l, of "lit ''Paris''" "\<lparr>emitted = []\<rparr> :: unit world"]
    by (simp add: header_def decimal_def digits.simps lit_def)
qed

text \<open>
  The claim as it was written, that no \<open>days\<close> makes the function fail, fails where the
  limit applies: with the setting 4300, minus ten to the power 4300 is below 0 and has
  4301 digits, and \<open>get_forecast\<close> raises instead of returning the header line.
\<close>

theorem get_forecast_nonpositive_counterexample:
  "(- (10 ^ 4300) :: int) \<le> 0 \<and>
   get_forecast 4300 (lit ''Paris'') (- (10 ^ 4300)) (\<lparr>emitted = []\<rparr> :: unit world) =
     (Inl ValueError, \<lparr>emitted = []\<rparr>)"
proof (rule conjI)
  have "(0::int) \<le> 10 ^ 4300"
    by (rule zero_le_power) simp
  then show "(- (10 ^ 4300) :: int) \<le> 0"
    by (simp only: neg_le_0_iff_le)
  have "exceeds_limit 4300 (- (10 ^ 4300))"
    by (rule power_exceeds_limit) simp_all
  then show "get_forecast 4300 (lit ''Paris'') (- (10 ^ 4300)) (\<lparr>emitted = []\<rparr> :: unit world) =
     (Inl ValueError, \<lparr>emitted = []\<rparr>)"
    by (rule get_forecast_raises)
qed

section \<open>Shape, state and determinism\<close>

lemma table_records: "list_all (\<lambda>(k, r). is_weather_record r) weather_data"
  by (simp add: weather_data_def is_weather_record_def)

lemma default_record_shape: "is_weather_record default_record"
  by (simp add: default_record_def is_weather_record_def)

text \<open>A call leaves the state as it was but for the logger calls it adds.\<close>

lemma get_weather_state:
  "\<exists>new. snd (get_weather str_lower s w) = w\<lparr>emitted := emitted w @ new\<rparr>"
proof (cases "map_of weather_data (str_lower s)")
  case None
  show ?thesis
    unfolding get_weather_def Let_def logger_info_def logger_debug_def None
    by (simp, rule exI, rule refl)
next
  case (Some r)
  show ?thesis
    unfolding get_weather_def Let_def logger_info_def logger_debug_def Some
    by (simp, rule exI, rule refl)
qed



text \<open>
  Claim C8. For every input the record \<open>get_weather\<close> returns has exactly the five
  attributes of a WeatherRecord, four integers and the string \<^verbatim>\<open>conditions\<close>; so has every
  entry of the table and the default record. A call changes nothing of the state but the
  logger's records: the table is a literal of the function and no state holds it.
\<close>

theorem weather_record_shape:
  "is_weather_record (fst (get_weather str_lower s w)) \<and>
   list_all (\<lambda>(k, r). is_weather_record r) weather_data \<and>
   is_weather_record default_record \<and>
   (\<exists>new. snd (get_weather str_lower s w) = w\<lparr>emitted := emitted w @ new\<rparr>)"
proof (intro conjI)
  have "is_weather_record r" if "r \<in> set (map snd weather_data)" for r
    using table_records that by (auto simp: list_all_iff)
  with get_weather_range [of str_lower s w] default_record_shape
  show "is_weather_record (fst (get_weather str_lower s w))"
    by auto
qed (rule table_records default_record_shape get_weather_state)+


text \<open>
  Claim C10. \<open>get_weather\<close> normalises the location by lowering it and in no other way:
  its value depends on the input through the lowered form alone, every lowered form that
  is no key of the table gives the default record, and a key with a space before or after
  it (" seattle", "seattle ") gives the default record and not the record of the key.
\<close>

theorem get_weather_lowercasing_only:
  "(str_lower s = str_lower t \<longrightarrow>
      fst (get_weather str_lower s w) = fst (get_weather str_lower t w)) \<and>
   (str_lower s \<notin> set (map fst weather_data) \<longrightarrow>
      fst (get_weather str_lower s w) = default_record) \<and>
   (lowers_ascii str_lower \<and> k \<in> set (map fst weather_data) \<longrightarrow>
      fst (get_weather str_lower (lit '' '' @ k) w) = default_record \<and>
      fst (get_weather str_lower (k @ lit '' '') w) = default_record \<and>
      fst (get_weather str_lower k w) \<noteq> default_record) \<and>
   (lowers_ascii str_lower \<longrightarrow>
      fst (get_weather str_lower (lit '' seattle'') w) =
        [(lit ''temperature'', VInt 21), (lit ''conditions'', VStr (lit ''partly cloudy'')),
         (lit ''humidity'', VInt 50), (lit ''wind_speed'', VInt 10), (lit ''feels_like'', VInt 20)] \<and>
      fst (get_weather str_lower (lit ''seattle '') w) =
        [(lit ''temperature'', VInt 21), (lit ''conditions'', VStr (lit ''partly cloudy'')),
         (lit ''humidity'', VInt 50), (lit ''wind_speed'', VInt 10), (lit ''feels_like'', VInt 20)] \<and>
      fst (get_weather str_lower (lit ''seattle'') w) =
        [(lit ''temperature'', VInt 11), (lit ''conditions'', VStr (lit ''rainy'')),
         (lit ''humidity'', VInt 75), (lit ''wind_speed'', VInt 12), (lit ''feels_like'', VInt 10)])"
proof (intro conjI impI)
  assume "str_lower s = str_lower t"
  then show "fst (get_weather str_lower s w) = fst (get_weather str_lower t w)"
    by (simp add: get_weather_result)
next
  assume "str_lower s \<notin> set (map fst weather_data)"
  then show "fst (get_weather str_lower s w) = default_record"
    by (simp add: get_weather_result lookup_unknown)
next
  assume a: "lowers_ascii str_lower \<and> k \<in> set (map fst weather_data)"
  then have k: "k \<in> {lit ''seattle'', lit ''san francisco'', lit ''new york city'', lit ''miami'',
                      lit ''chicago''}"
    by (simp add: weather_keys)
  then have asc: "list_all (\<lambda>c. c < 128) k \<and> map lower_ascii k = k"
    by (auto simp: lit_def lower_ascii_def)
  from a asc have low: "str_lower k = k" "str_lower (lit '' '' @ k) = lit '' '' @ k"
    "str_lower (k @ lit '' '') = k @ lit '' ''"
    by (simp_all add: lowers_ascii_def lit_def lower_ascii_def)
  from k have "map_of weather_data (lit '' '' @ k) = None"
    by (auto simp: weather_data_def lit_def)
  then show "fst (get_weather str_lower (lit '' '' @ k) w) = default_record"
    by (simp add: get_weather_result low)
  from k have "map_of weather_data (k @ lit '' '') = None"
    by (auto simp: weather_data_def lit_def)
  then show "fst (get_weather str_lower (k @ lit '' '') w) = default_record"
    by (simp add: get_weather_result low)
  from k show "fst (get_weather str_lower k w) \<noteq> default_record"
    by (auto simp: get_weather_result low lookup_seattle lookup_san_francisco
        lookup_new_york_city lookup_miami lookup_chicago default_record_def)
next
  assume l: "lowers_ascii str_lower"
  then have low: "str_lower (lit '' seattle'') = lit '' seattle''"
    "str_lower (lit ''seattle '') = lit ''seattle ''" "str_lower (lit ''seattle'') = lit ''seattle''"
    by (simp_all add: lowers_ascii_def lit_def lower_ascii_def)
  have none: "map_of weather_data (lit '' seattle'') = None"
    "map_of weather_data (lit ''seattle '') = None"
    by (simp_all add: weather_data_def lit_def)
  show "fst (get_weather str_lower (lit '' seattle'') w) =
        [(lit ''temperature'', VInt 21), (lit ''conditions'', VStr (lit ''partly cloudy'')),
         (lit ''humidity'', VInt 50), (lit ''wind_speed'', VInt 10), (lit ''feels_like'', VInt 20)]"
    by (simp add: get_weather_result low none default_record_def)
  show "fst (get_weather str_lower (lit ''seattle '') w) =
        [(lit ''temperature'', VInt 21), (lit ''conditions'', VStr (lit ''partly cloudy'')),
         (lit ''humidity'', VInt 50), (lit ''wind_speed'', VInt 10), (lit ''feels_like'', VInt 20)]"
    by (simp add: get_weather_result low none default_record_def)
  show "fst (get_weather str_lower (lit ''seattle'') w) =
        [(lit ''temperature'', VInt 11), (lit ''conditions'', VStr (lit ''rainy'')),
         (lit ''humidity'', VInt 75), (lit ''wind_speed'', VInt 12), (lit ''feels_like'', VInt 10)]"
    by (simp add: get_weather_result low lookup_seattle)
qed

theorem get_weather_lowercasing_only_witness:
  "map lower_ascii (lit ''MIAMI'') = map lower_ascii (lit ''miami'') \<and>
   fst (get_weather (map lower_ascii) (lit ''MIAMI'') (\<lparr>emitted = []\<rparr> :: unit world)) =
     fst (get_weather (map lower_ascii) (lit ''miami'') (\<lparr>emitted = []\<rparr> :: unit world)) \<and>
   map lower_ascii (lit ''Miami Beach'') \<notin> set (map fst weather_data) \<and>
   fst (get_weather (map lower_ascii) (lit ''Miami Beach'') (\<lparr>emitted = []\<rparr> :: unit world)) =
     default_record \<and>
   lowers_ascii (map lower_ascii) \<and> lit ''chicago'' \<in> set (map fst weather_data) \<and>
   fst (get_weather (map lower_ascii) (lit '' chicago'') (\<lparr>emitted = []\<rparr> :: unit world)) =
     default_record \<and>
   fst (get_weather (map lower_ascii) (lit ''chicago '') (\<lparr>emitted = []\<rparr> :: unit world)) =
     default_record \<and>
   fst (get_weather (map lower_ascii) (lit ''chicago'') (\<lparr>emitted = []\<rparr> :: unit world)) \<noteq>
     default_record \<and>
   fst (get_weather (map lower_ascii) (lit '' seattle'') (\<lparr>emitted = []\<rparr> :: unit world)) =
     [(lit ''temperature'', VInt 21), (lit ''conditions'', VStr (lit ''partly cloudy'')),
      (lit ''humidity'', VInt 50), (lit ''wind_speed'', VInt 10), (lit ''feels_like'', VInt 20)]"
proof -
  have e: "map lower_ascii (lit ''MIAMI'') = map lower_ascii (lit ''miami'')"
    by (simp add: lit_def lower_ascii_def)
  have n: "map lower_ascii (lit ''Miami Beach'') \<notin> set (map fst weather_data)"
    by (simp add: weather_keys) (simp add: lit_def lower_ascii_def)
  have k: "lit ''chicago'' \<in> set (map fst weather_data)"
    by (simp add: weather_keys)
  have sp: "lit '' '' @ lit ''chicago'' = lit '' chicago''" "lit ''chicago'' @ lit '' '' = lit ''chicago ''"
    by (simp_all add: lit_def)
  show ?thesis
    using e n k lowers_ascii_map
      get_weather_lowercasing_only [of "map lower_ascii" "lit ''MIAMI''" "lit ''miami''"
        "\<lparr>emitted = []\<rparr> :: unit world" "lit ''chicago''"]
      get_weather_lowercasing_only [of "map lower_ascii" "lit ''Miami Beach''" "lit ''miami''"
        "\<lparr>emitted = []\<rparr> :: unit world" "lit ''chicago''"]
    by (simp add: sp)
qed

section \<open>Facts about the agent assembly\<close>

text \<open>The three string literals of the instructions, written next to each other, are one string.\<close>

lemma instructions_literal:
  "lit ''You are a helpful weather assistant. '' @
   lit ''Use the get_weather and get_forecast functions to help users with weather information. '' @
   lit ''Always provide friendly and informative responses.'' =
   lit ''You are a helpful weather assistant. Use the get_weather and get_forecast functions to help users with weather information. Always provide friendly and informative responses.''"
  by (simp add: lit_def)

lemma weather_agent_unfold:
  "weather_agent ChatAgent chat_client w =
    (case ChatAgent
            \<lparr>arg_name = lit ''weather_agent'',
             arg_instructions = lit ''You are a helpful weather assistant. Use the get_weather and get_forecast functions to help users with weather information. Always provide friendly and informative responses.'',
             arg_chat_client = chat_client,
             arg_tools = [get_weather_tool, get_forecast_tool]\<rparr>
            (before_constructor chat_client w) of
       (Inl err, w') \<Rightarrow> (Inl err, w')
     | (Inr agent, w') \<Rightarrow>
         (Inr agent, logger_info [Lit (lit ''[weather_agent] Weather agent created successfully'')] w'))"
  unfolding weather_agent_def before_constructor_def Let_def instructions_literal ..

text \<open>
  Claim C6. For every client, \<open>weather_agent\<close> calls the constructor once, with the name
  "weather_agent", the fixed instructions that tell the agent to use the two tools, the
  client it was given and the list of the two tools, and what it returns is what that call
  returns. With the constructor that records its configuration, the handle returned has
  the name "weather_agent" and exactly the two tools.
\<close>

theorem weather_agent_configuration:
  "fst (weather_agent ChatAgent chat_client w) =
     fst (ChatAgent
            \<lparr>arg_name = lit ''weather_agent'',
             arg_instructions = lit ''You are a helpful weather assistant. Use the get_weather and get_forecast functions to help users with weather information. Always provide friendly and informative responses.'',
             arg_chat_client = chat_client,
             arg_tools = [get_weather_tool, get_forecast_tool]\<rparr>
            (before_constructor chat_client w)) \<and>
   (\<exists>handle. fst (weather_agent ChatAgent_recording chat_client w) = Inr handle \<and>
      arg_name handle = lit ''weather_agent'' \<and>
      arg_instructions handle = lit ''You are a helpful weather assistant. Use the get_weather and get_forecast functions to help users with weather information. Always provide friendly and informative responses.'' \<and>
      arg_chat_client handle = chat_client \<and>
      arg_tools handle = [get_weather_tool, get_forecast_tool] \<and>
      set (arg_tools handle) = {get_weather_tool, get_forecast_tool})"
proof (intro conjI)
  show "fst (weather_agent ChatAgent chat_client w) =
     fst (ChatAgent
            \<lparr>arg_name = lit ''weather_agent'',
             arg_instructions = lit ''You are a helpful weather assistant. Use the get_weather and get_forecast functions to help users with weather information. Always provide friendly and informative responses.'',
             arg_chat_client = chat_client,
             arg_tools = [get_weather_tool, get_forecast_tool]\<rparr>
            (before_constructor chat_client w))"
    by (simp add: weather_agent_unfold split: prod.split sum.split)
  show "\<exists>handle. fst (weather_agent ChatAgent_recording chat_client w) = Inr handle \<and>
      arg_name handle = lit ''weather_agent'' \<and>
      arg_instructions handle = lit ''You are a helpful weather assistant. Use the get_weather and get_forecast functions to help users with weather information. Always provide friendly and informative responses.'' \<and>
      arg_chat_client handle = chat_client \<and>
      arg_tools handle = [get_weather_tool, get_forecast_tool] \<and>
      set (arg_tools handle) = {get_weather_tool, get_forecast_tool}"
    by (simp add: weather_agent_unfold ChatAgent_recording_def)
qed

text \<open>
  Claim C7. \<open>weather_agent\<close> handles no failure: when the constructor raises an error,
  \<open>weather_agent\<close> ends with that same error, in the state the constructor left; when the
  constructor returns an agent, \<open>weather_agent\<close> returns that agent and adds one logger
  call.
\<close>

theorem weather_agent_passes_through:
  "(ChatAgent
      \<lparr>arg_name = lit ''weather_agent'',
       arg_instructions = lit ''You are a helpful weather assistant. Use the get_weather and get_forecast functions to help users with weather information. Always provide friendly and informative responses.'',
       arg_chat_client = chat_client,
       arg_tools = [get_weather_tool, get_forecast_tool]\<rparr>
      (before_constructor chat_client w) = (Inl err, w') \<longrightarrow>
    weather_agent ChatAgent chat_client w = (Inl err, w')) \<and>
   (ChatAgent
      \<lparr>arg_name = lit ''weather_agent'',
       arg_instructions = lit ''You are a helpful weather assistant. Use the get_weather and get_forecast functions to help users with weather information. Always provide friendly and informative responses.'',
       arg_chat_client = chat_client,
       arg_tools = [get_weather_tool, get_forecast_tool]\<rparr>
      (before_constructor chat_client w) = (Inr agent, w') \<longrightarrow>
    weather_agent ChatAgent chat_client w =
      (Inr agent, logger_info [Lit (lit ''[weather_agent] Weather agent created successfully'')] w'))"
  by (simp add: weather_agent_unfold)

theorem weather_agent_passes_through_witness:
  "weather_agent (\<lambda>args w. (Inl (lit ''invalid client'') :: pystr + nat, w)) (7 :: nat)
      (\<lparr>emitted = []\<rparr> :: nat world) =
     (Inl (lit ''invalid client''), before_constructor 7 \<lparr>emitted = []\<rparr>) \<and>
   weather_agent (\<lambda>args w. (Inr (length (arg_tools args)) :: pystr + nat, w)) (7 :: nat)
      (\<lparr>emitted = []\<rparr> :: nat world) =
     (Inr 2,
      logger_info [Lit (lit ''[weather_agent] Weather agent created successfully'')]
        (before_constructor 7 \<lparr>emitted = []\<rparr>))"
  using
    weather_agent_passes_through [of "\<lambda>args w. (Inl (lit ''invalid client'') :: pystr + nat, w)"
      "7 :: nat" "\<lparr>emitted = []\<rparr> :: nat world" "lit ''invalid client''"
      "before_constructor 7 \<lparr>emitted = []\<rparr>"]
    weather_agent_passes_through [of "\<lambda>args w. (Inr (length (arg_tools args)) :: pystr + nat, w)"
      "7 :: nat" "\<lparr>emitted = []\<rparr> :: nat world" _ "before_constructor 7 \<lparr>emitted = []\<rparr>" 2]
  by simp

end
